theory Spec2Isabelle
  imports Complex_Main "HOL-Library.Word" "HOL-Library.Signed_Division"
begin

section \<open>Data model\<close>

text \<open>
  The state-sync manager of the polybft consensus package (\<^verbatim>\<open>stateSyncManager\<close>) and the
  quorum helpers of the consensus runtime. Identifiers are unsigned 64-bit integers;
  addresses, hashes, signatures and keys are byte strings.
\<close>

type_synonym uint64 = "64 word"
type_synonym bytes = "8 word list"
type_synonym Address = bytes
type_synonym Hash = bytes

text \<open>
  Go errors. The sentinels \<^verbatim>\<open>errNotAValidator\<close>, \<^verbatim>\<open>errQuorumNotReached\<close> and
  \<^verbatim>\<open>errNotEnoughStateSyncs\<close> are package variables; \<open>Errorf\<close> is an error made by
  \<^verbatim>\<open>fmt.Errorf\<close> or \<^verbatim>\<open>errors.New\<close> from a message, \<open>Wrap\<close> one made with the \<^verbatim>\<open>%w\<close> verb;
  \<open>errNotFound\<close> is the store's answer when no accepted commitment covers an event id;
  \<open>NilDereference\<close> is the run-time panic of a method call on a nil interface.
\<close>

datatype error =
    errNotAValidator
  | errQuorumNotReached
  | errNotEnoughStateSyncs
  | errNotFound
  | Errorf string
  | Wrap string error
  | NilDereference

text \<open>\<^verbatim>\<open>errors.Is\<close>: the target is the error itself or is reached by unwrapping.\<close>

fun errorsIs :: "error \<Rightarrow> error \<Rightarrow> bool" where
  "errorsIs (Wrap m e) t = (Wrap m e = t \<or> errorsIs e t)"
| "errorsIs e t = (e = t)"

record StateSyncEvent =
  ID :: uint64
  Sender :: Address
  Receiver :: Address
  Data :: bytes

record MessageSignature =
  From :: string
  Signature :: bytes

record TransportMessage =
  Hash :: bytes
  MsgSignature :: bytes
  NodeID :: string
  EpochNumber :: uint64

record ValidatorMetadata =
  Address :: Address
  BlsKey :: bytes

text \<open>
  The \<^verbatim>\<open>ValidatorSet\<close> interface: the ordered accounts (index \<open>i\<close> is bit \<open>i\<close> of the
  bitmap) and the set's own quorum rule over a set of signer addresses.
\<close>

record ValidatorSet =
  Accounts :: "ValidatorMetadata list"
  HasQuorum :: "Address set \<Rightarrow> bool"

text \<open>
  Modelled from the spec: \<^verbatim>\<open>ValidatorSet.Includes\<close>, whose implementation is not among the
  sources; the specification's \<^verbatim>\<open>includes(addr)\<close>, membership of the address in the set.
\<close>

definition Includes :: "ValidatorSet \<Rightarrow> Address \<Rightarrow> bool" where
  "Includes vs a = (a \<in> Address ` set (Accounts vs))"

text \<open>
  A Merkle tree is the list of its levels of node hashes. Building it, its root and its
  sibling paths belong to the Merkle package and are taken as parameters (see \<open>deps\<close>).
\<close>

type_synonym MerkleTree = "Hash list list"

record Commitment =
  MerkleTree :: MerkleTree
  Epoch :: uint64
  FromIndex :: uint64
  ToIndex :: uint64

record CommitmentMessage =
  MerkleRootHash :: Hash
  MsgFromIndex :: uint64
  MsgToIndex :: uint64

text \<open>
  \<^verbatim>\<open>Signature\<close>: the aggregated signature and the bitmap of the validator indices that
  signed (\<^verbatim>\<open>bitmap.Set(i)\<close> adds index \<open>i\<close>).
\<close>

record Signature =
  AggregatedSignature :: bytes
  Bitmap :: "nat set"

record CommitmentMessageSigned =
  Message :: CommitmentMessage
  AggSignature :: Signature
  PublicKeys :: "bytes list"

record StateSyncProof =
  Proof :: "Hash list"
  StateSync :: StateSyncEvent

record Log =
  LogAddress :: Address
  Topics :: "Hash list"
  LogData :: bytes

record Transaction =
  To :: "Address option"
  Input :: bytes

definition NewCommitmentMessage :: "Hash \<Rightarrow> uint64 \<Rightarrow> uint64 \<Rightarrow> CommitmentMessage" where
  "NewCommitmentMessage rootHash fromIndex toIndex =
     \<lparr>MerkleRootHash = rootHash, MsgFromIndex = fromIndex, MsgToIndex = toIndex\<rparr>"

text \<open>Minimum number of state-sync events of a commitment (the constant of the source).\<close>

definition minCommitmentSize :: nat where
  "minCommitmentSize = 2"

section \<open>Collaborators\<close>

text \<open>
  What the manager is configured with or calls in other packages: the address codec
  (\<^verbatim>\<open>types.StringToAddress\<close>, \<^verbatim>\<open>Address.String\<close>), the BLS library
  (\<^verbatim>\<open>bls.UnmarshalSignature\<close>, \<^verbatim>\<open>Signatures.Aggregate().Marshal()\<close>), the validator key
  (\<^verbatim>\<open>key.Sign\<close>, \<^verbatim>\<open>key.String\<close>), \<^verbatim>\<open>config.maxCommitmentSize\<close>, the Merkle package
  (\<^verbatim>\<open>createMerkleTree\<close>, \<^verbatim>\<open>MerkleTree.Hash\<close>, \<^verbatim>\<open>GenerateProof\<close>), the digest of the triple
  (root, from, to) behind \<^verbatim>\<open>Commitment.Hash\<close>, the state-sync event ABI
  (\<^verbatim>\<open>stateTransferEventABI.Match\<close>, the log decoder) and the ABI of the commitment
  transaction (target contract, method selector, decoder). Each fallible call returns
  \<open>Inl\<close> of its error.
\<close>

record deps =
  StringToAddress :: "string \<Rightarrow> Address"
  AddressString :: "Address \<Rightarrow> string"
  UnmarshalSignature :: "bytes \<Rightarrow> error + bytes"
  AggregateMarshal :: "bytes list \<Rightarrow> error + bytes"
  keySign :: "bytes \<Rightarrow> error + bytes"
  keyString :: string
  maxCommitmentSize :: uint64
  createMerkleTree :: "StateSyncEvent list \<Rightarrow> error + MerkleTree"
  treeHash :: "MerkleTree \<Rightarrow> Hash"
  GenerateProof :: "MerkleTree \<Rightarrow> nat \<Rightarrow> Hash list"
  hashTriple :: "Hash \<Rightarrow> uint64 \<Rightarrow> uint64 \<Rightarrow> error + bytes"
  abiMatch :: "Log \<Rightarrow> bool"
  parseStateSyncLog :: "Log \<Rightarrow> error + StateSyncEvent"
  commitTarget :: Address
  commitSelector :: bytes
  decodeCommitInput :: "bytes \<Rightarrow> error + CommitmentMessageSigned"

section \<open>The store\<close>

text \<open>
  The store (\<^verbatim>\<open>State\<close>) is not among the sources. Its four collections follow the
  persistent layout of the specification: events by id, votes by (epoch, digest, sender),
  accepted commitments by \<open>toId\<close>, proofs by event id. A collection keyed by a field of
  its records is the list of the records, with at most one record per key.
\<close>

record State =
  stateSyncEvents :: "StateSyncEvent list"
  messageVotes :: "uint64 \<times> bytes \<Rightarrow> MessageSignature list"
  commitmentMessages :: "CommitmentMessageSigned list"
  stateSyncProofs :: "StateSyncProof list"

subsection \<open>What the store holds\<close>

text \<open>
  Modelled from the spec: the read of an event is missing; the event stored under key
  \<^verbatim>\<open>events/<id>\<close>, if any.
\<close>

definition eventAt :: "State \<Rightarrow> uint64 \<Rightarrow> StateSyncEvent option" where
  "eventAt st i = find (\<lambda>e. ID e = i) (stateSyncEvents st)"

text \<open>
  Modelled from the spec: the read of the votes is missing; the votes stored under
  \<^verbatim>\<open>votes/<epoch>/<digest>/\<close>.
\<close>

definition votesAt :: "State \<Rightarrow> uint64 \<Rightarrow> bytes \<Rightarrow> MessageSignature list" where
  "votesAt st epoch hash = messageVotes st (epoch, hash)"

text \<open>
  Modelled from the spec: the read of a proof is missing; the proof stored under key
  \<^verbatim>\<open>proofs/<event-id>\<close>, if any.
\<close>

definition proofAt :: "State \<Rightarrow> uint64 \<Rightarrow> StateSyncProof option" where
  "proofAt st i = find (\<lambda>p. ID (StateSync p) = i) (stateSyncProofs st)"


text \<open>The ids \<open>fromIndex, ..., toIndex\<close> in increasing order (none when \<open>toIndex < fromIndex\<close>).\<close>

definition idRange :: "uint64 \<Rightarrow> uint64 \<Rightarrow> uint64 list" where
  "idRange fromIndex toIndex = map of_nat [unat fromIndex..<Suc (unat toIndex)]"

subsection \<open>Writes\<close>

text \<open>
  Modelled from the spec: the write of an event is missing; the event is put under its
  id, a record of the same id being replaced.
\<close>

definition putStateSyncEvent :: "State \<Rightarrow> StateSyncEvent \<Rightarrow> State" where
  "putStateSyncEvent st ev =
     st\<lparr>stateSyncEvents := ev # filter (\<lambda>e. ID e \<noteq> ID ev) (stateSyncEvents st)\<rparr>"

text \<open>
  Modelled from the spec: the write of a vote is missing; "upsert by (epoch, digest,
  vote.from)": a vote of the same sender is replaced, a new sender's vote is added.
\<close>

definition upsertVote :: "MessageSignature \<Rightarrow> MessageSignature list \<Rightarrow> MessageSignature list" where
  "upsertVote vote votes =
     (if From vote \<in> From ` set votes
      then map (\<lambda>v. if From v = From vote then vote else v) votes
      else votes @ [vote])"

text \<open>
  Modelled from the spec: the vote is put under (epoch, digest), and "the number of
  distinct votes now recorded for (epoch, digest)" is returned.
\<close>

definition putMessageVote ::
  "State \<Rightarrow> uint64 \<Rightarrow> bytes \<Rightarrow> MessageSignature \<Rightarrow> State \<times> nat" where
  "putMessageVote st epoch hash vote =
     (let votes = upsertVote vote (messageVotes st (epoch, hash))
      in (st\<lparr>messageVotes := (messageVotes st)((epoch, hash) := votes)\<rparr>, length votes))"

text \<open>
  Modelled from the spec: the write of an accepted commitment is missing; it is put
  under key \<^verbatim>\<open>commitments/<toId>\<close>.
\<close>

definition putCommitmentMessage :: "State \<Rightarrow> CommitmentMessageSigned \<Rightarrow> State" where
  "putCommitmentMessage st c =
     st\<lparr>commitmentMessages :=
          c # filter (\<lambda>d. MsgToIndex (Message d) \<noteq> MsgToIndex (Message c)) (commitmentMessages st)\<rparr>"

text \<open>
  Modelled from the spec: the write of a proof is missing; it is put under key
  \<^verbatim>\<open>proofs/<event-id>\<close>.
\<close>

definition putProof :: "StateSyncProof \<Rightarrow> StateSyncProof list \<Rightarrow> StateSyncProof list" where
  "putProof p ps = p # filter (\<lambda>q. ID (StateSync q) \<noteq> ID (StateSync p)) ps"

text \<open>Modelled from the spec: the proofs of a list are put one after the other.\<close>

definition putStateSyncProofs :: "State \<Rightarrow> StateSyncProof list \<Rightarrow> State" where
  "putStateSyncProofs st proofs = st\<lparr>stateSyncProofs := fold putProof proofs (stateSyncProofs st)\<rparr>"

subsection \<open>The operations the manager calls\<close>

text \<open>
  Each operation of the Go store returns an error next to its result, and the manager
  has a branch for it. The operations below are those of the specification, which
  gives the store two failures of its own: \<^verbatim>\<open>NotEnoughStateSyncs\<close> of the range scan and
  \<^verbatim>\<open>NotFound\<close> of the commitment lookup; the other operations return no error here
  (failures of the database itself are not part of the model).
\<close>

text \<open>
  Modelled from the spec: \<^verbatim>\<open>State.insertStateSyncEvent\<close> is missing;
  "\<^verbatim>\<open>insertStateSyncEvent(ev)\<close> -- idempotent on \<^verbatim>\<open>ev.id\<close>".
\<close>

definition insertStateSyncEvent :: "State \<Rightarrow> StateSyncEvent \<Rightarrow> error + State" where
  "insertStateSyncEvent st ev = Inr (putStateSyncEvent st ev)"

text \<open>
  Modelled from the spec: \<^verbatim>\<open>State.getStateSyncEventsForCommitment\<close> is missing; it
  "returns events with ids in [fromId,toId]; fails with NotEnoughStateSyncs if the scan
  yields fewer than minCommitmentSize events". As the callers in the source read both
  results, the events found are returned next to the error.
\<close>

definition getStateSyncEventsForCommitment ::
  "State \<Rightarrow> uint64 \<Rightarrow> uint64 \<Rightarrow> StateSyncEvent list \<times> error option" where
  "getStateSyncEventsForCommitment st fromIndex toIndex =
     (let events = List.map_filter (eventAt st) (idRange fromIndex toIndex)
      in (events,
          if length events < minCommitmentSize then Some errNotEnoughStateSyncs else None))"

text \<open>
  Modelled from the spec: \<^verbatim>\<open>State.insertMessageVote\<close> is missing;
  "upsert by (epoch, digest, vote.from); returns the number of distinct votes now
  recorded for (epoch, digest)".
\<close>

definition insertMessageVote ::
  "State \<Rightarrow> uint64 \<Rightarrow> bytes \<Rightarrow> MessageSignature \<Rightarrow> error + State \<times> nat" where
  "insertMessageVote st epoch hash vote = Inr (putMessageVote st epoch hash vote)"

text \<open>
  Modelled from the spec: \<^verbatim>\<open>State.getMessageVotes\<close> is missing; it returns the votes at
  (epoch, digest).
\<close>

definition getMessageVotes :: "State \<Rightarrow> uint64 \<Rightarrow> bytes \<Rightarrow> error + MessageSignature list" where
  "getMessageVotes st epoch hash = Inr (votesAt st epoch hash)"

text \<open>
  Modelled from the spec: \<^verbatim>\<open>State.insertCommitmentMessage\<close> is missing; the signed
  commitment is stored under key \<^verbatim>\<open>commitments/<toId>\<close>.
\<close>

definition insertCommitmentMessage :: "State \<Rightarrow> CommitmentMessageSigned \<Rightarrow> error + State" where
  "insertCommitmentMessage st c = Inr (putCommitmentMessage st c)"


text \<open>
  Modelled from the spec: \<^verbatim>\<open>State.insertStateSyncProofs\<close> is missing; the proofs are
  stored one after the other, each under key \<^verbatim>\<open>proofs/<event-id>\<close>.
\<close>

definition insertStateSyncProofs :: "State \<Rightarrow> StateSyncProof list \<Rightarrow> error + State" where
  "insertStateSyncProofs st proofs = Inr (putStateSyncProofs st proofs)"

text \<open>
  Modelled from the spec: \<^verbatim>\<open>State.getStateSyncProof\<close> is missing; it returns the proof
  stored for the event id, or nil.
\<close>

definition getStateSyncProof :: "State \<Rightarrow> uint64 \<Rightarrow> error + StateSyncProof option" where
  "getStateSyncProof st i = Inr (proofAt st i)"

section \<open>Quorum size of the consensus runtime\<close>

text \<open>
  \<^verbatim>\<open>func getQuorumSize(validatorsCount int) int { return (validatorsCount + 1) / 2 }\<close>
  Go's integer division truncates towards zero (\<open>sdiv\<close>).
\<close>

definition getQuorumSize :: "int \<Rightarrow> int" where
  "getQuorumSize validatorsCount = (validatorsCount + 1) sdiv 2"

text \<open>The quorum threshold the specification names: two thirds of the validators, rounded up.\<close>

definition twoThirdsCeil :: "nat \<Rightarrow> int" where
  "twoThirdsCeil n = \<lceil>2 * real n / 3\<rceil>"

section \<open>Aggregation in the consensus runtime\<close>

record epochMetadata =
  Number :: uint64
  Validators :: "ValidatorMetadata list"

text \<open>
  The index map built by both aggregation functions: the string of the address of
  validator \<open>i\<close> is sent to \<open>i\<close>; a later validator with the same address overwrites.
\<close>

definition addrToIndex :: "'z deps_scheme \<Rightarrow> ValidatorMetadata list \<Rightarrow> string \<Rightarrow> nat option" where
  "addrToIndex env validators =
     fold (\<lambda>(i, validator) m. m(AddressString env (Address validator) \<mapsto> i))
       (enumerate 0 validators) Map.empty"

text \<open>
  The loop over the votes of \<^verbatim>\<open>consensusRuntime.getAggSignatureForCommitmentMessage\<close>:
  a vote of an unknown sender is skipped, a signature that does not decode ends the
  call with the error, every other vote sets its bit and appends its signature.
\<close>

fun runtimeVotes ::
  "'z deps_scheme \<Rightarrow> (string \<Rightarrow> nat option) \<Rightarrow> MessageSignature list \<Rightarrow> bytes list \<times> nat set
     \<Rightarrow> error + bytes list \<times> nat set" where
  "runtimeVotes env nodeIDIndexMap [] acc = Inr acc"
| "runtimeVotes env nodeIDIndexMap (vote # votes) (signatures, bitmap) =
     (case nodeIDIndexMap (From vote) of
        None \<Rightarrow> runtimeVotes env nodeIDIndexMap votes (signatures, bitmap)
      | Some index \<Rightarrow>
          (case UnmarshalSignature env (Signature vote) of
             Inl err \<Rightarrow> Inl err
           | Inr signature \<Rightarrow>
               runtimeVotes env nodeIDIndexMap votes (signatures @ [signature], insert index bitmap)))"

definition runtime_getAggSignatureForCommitmentMessage ::
  "'z deps_scheme \<Rightarrow> State \<Rightarrow> epochMetadata \<Rightarrow> Hash \<Rightarrow> error + Signature" where
  "runtime_getAggSignatureForCommitmentMessage env st epoch commitmentHash =
     (let validators = Validators epoch;
          nodeIDIndexMap = addrToIndex env validators
      in case getMessageVotes st (Number epoch) commitmentHash of
           Inl err \<Rightarrow> Inl err
         | Inr votes \<Rightarrow>
             (case runtimeVotes env nodeIDIndexMap votes ([], {}) of
                Inl err \<Rightarrow> Inl err
              | Inr (signatures, bitmap) \<Rightarrow>
                  if int (length signatures) < getQuorumSize (int (length validators))
                  then Inl errQuorumNotReached
                  else (case AggregateMarshal env signatures of
                          Inl err \<Rightarrow> Inl err
                        | Inr aggregatedSignature \<Rightarrow>
                            Inr \<lparr>AggregatedSignature = aggregatedSignature, Bitmap = bitmap\<rparr>)))"

section \<open>The state-sync manager\<close>

text \<open>
  The per-epoch fields of \<^verbatim>\<open>stateSyncManager\<close>, its store, and the messages it has handed
  to \<^verbatim>\<open>multicast\<close> (\<open>published\<close>, oldest first). The validator set is nil until the first
  \<^verbatim>\<open>PostEpoch\<close>.
\<close>

record stateSyncManager =
  state :: State
  pendingCommitments :: "Commitment list"
  validatorSet :: "ValidatorSet option"
  epoch :: uint64
  nextCommittedIndex :: uint64
  published :: "TransportMessage list"

text \<open>
  Modelled from the spec: \<^verbatim>\<open>Commitment.Hash\<close> is missing; "the commitment's digest for
  signing is the hash of the triple (merkleRoot, fromId, toId) encoded canonically".
\<close>

definition commitmentHash :: "'z deps_scheme \<Rightarrow> Commitment \<Rightarrow> error + bytes" where
  "commitmentHash env c = hashTriple env (treeHash env (MerkleTree c)) (FromIndex c) (ToIndex c)"

text \<open>
  Modelled from the spec: \<^verbatim>\<open>NewCommitment\<close> is missing; a pending commitment has the epoch,
  the Merkle tree of its events, and the range \<open>fromId\<close> to \<open>toId\<close> of their ids, the events
  being ordered by id. The source calls it with at least \<open>minCommitmentSize\<close> events.
\<close>

definition NewCommitment ::
  "'z deps_scheme \<Rightarrow> uint64 \<Rightarrow> StateSyncEvent list \<Rightarrow> error + Commitment" where
  "NewCommitment env epochNumber events =
     (case createMerkleTree env events of
        Inl err \<Rightarrow> Inl err
      | Inr tree \<Rightarrow>
          Inr \<lparr>MerkleTree = tree, Epoch = epochNumber,
               FromIndex = ID (hd events), ToIndex = ID (last events)\<rparr>)"

subsection \<open>saveVote and the transport handler\<close>

definition saveVote ::
  "'z deps_scheme \<Rightarrow> stateSyncManager \<Rightarrow> TransportMessage \<Rightarrow> stateSyncManager \<times> error option" where
  "saveVote env s msg =
     (case validatorSet s of
        None \<Rightarrow> (s, None)
      | Some valSet \<Rightarrow>
          if EpochNumber msg < epoch s then (s, None)
          else if \<not> Includes valSet (StringToAddress env (NodeID msg))
          then (s, Some (Errorf ''validator is not among the active validator set''))
          else
            (let msgVote = \<lparr>From = NodeID msg, Signature = MsgSignature msg\<rparr>
             in case insertMessageVote (state s) (EpochNumber msg) (Hash msg) msgVote of
                  Inl err \<Rightarrow> (s, Some (Wrap ''error inserting message vote'' err))
                | Inr (st, numSignatures) \<Rightarrow> (s\<lparr>state := st\<rparr>, None)))"

text \<open>
  The subscription handler of \<^verbatim>\<open>initTransport\<close>: an object that is not a transport
  message, or whose payload does not decode (\<open>None\<close>), is logged and dropped; the error
  of \<^verbatim>\<open>saveVote\<close> is logged.
\<close>

definition handleGossip ::
  "'z deps_scheme \<Rightarrow> stateSyncManager \<Rightarrow> TransportMessage option \<Rightarrow> stateSyncManager" where
  "handleGossip env s obj = (case obj of None \<Rightarrow> s | Some msg \<Rightarrow> fst (saveVote env s msg))"

subsection \<open>buildCommitment and AddLog\<close>

definition buildCommitment ::
  "'z deps_scheme \<Rightarrow> stateSyncManager \<Rightarrow> stateSyncManager \<times> error option" where
  "buildCommitment env s =
     (let epochNumber = epoch s;
          fromIndex = nextCommittedIndex s;
          (events, err) =
             getStateSyncEventsForCommitment (state s) fromIndex (fromIndex + maxCommitmentSize env - 1)
      in case (case err of
                 None \<Rightarrow> None
               | Some e \<Rightarrow> if errorsIs e errNotEnoughStateSyncs then None else Some e) of
           Some e \<Rightarrow> (s, Some (Wrap ''failed to get state sync events for commitment'' e))
         | None \<Rightarrow>
         if length events < minCommitmentSize then (s, None)
         else if pendingCommitments s \<noteq> [] \<and>
                 ID (last events) \<le> ToIndex (last (pendingCommitments s))
         then (s, None)
         else
           (case NewCommitment env epochNumber events of
              Inl e \<Rightarrow> (s, Some e)
            | Inr commitment \<Rightarrow>
                (case commitmentHash env commitment of
                   Inl e \<Rightarrow> (s, Some (Wrap ''failed to generate hash for commitment'' e))
                 | Inr hashBytes \<Rightarrow>
                     (case keySign env hashBytes of
                        Inl e \<Rightarrow> (s, Some (Wrap ''failed to sign commitment message'' e))
                      | Inr signature \<Rightarrow>
                          (let sig = \<lparr>From = keyString env, Signature = signature\<rparr>
                           in case insertMessageVote (state s) epochNumber hashBytes sig of
                                Inl e \<Rightarrow>
                                  (s, Some (Wrap ''failed to insert signature to the state'' e))
                              | Inr (st, n) \<Rightarrow>
                                  (let msg = \<lparr>Hash = hashBytes, MsgSignature = signature,
                                              NodeID = keyString env, EpochNumber = epochNumber\<rparr>
                                   in (s\<lparr>state := st,
                                         published := published s @ [msg],
                                         pendingCommitments := pendingCommitments s @ [commitment]\<rparr>,
                                       None)))))))"

definition AddLog :: "'z deps_scheme \<Rightarrow> stateSyncManager \<Rightarrow> Log \<Rightarrow> stateSyncManager" where
  "AddLog env s eventLog =
     (if \<not> abiMatch env eventLog then s
      else (case parseStateSyncLog env eventLog of
              Inl err \<Rightarrow> s
            | Inr event \<Rightarrow>
                (case insertStateSyncEvent (state s) event of
                   Inl err \<Rightarrow> s
                 | Inr st \<Rightarrow> fst (buildCommitment env (s\<lparr>state := st\<rparr>)))))"

subsection \<open>Commitment\<close>

text \<open>
  The loop over the votes of \<^verbatim>\<open>stateSyncManager.getAggSignatureForCommitmentMessage\<close>; the
  accumulator holds the signatures, the public keys, the bitmap and the signers.
\<close>

fun managerVotes ::
  "'z deps_scheme \<Rightarrow> (string \<Rightarrow> nat option) \<Rightarrow> ValidatorMetadata list \<Rightarrow> MessageSignature list
     \<Rightarrow> bytes list \<times> bytes list \<times> nat set \<times> Address set
     \<Rightarrow> error + bytes list \<times> bytes list \<times> nat set \<times> Address set" where
  "managerVotes env validatorAddrToIndex validatorsMetadata [] acc = Inr acc"
| "managerVotes env validatorAddrToIndex validatorsMetadata (vote # votes)
       (signatures, publicKeys, bitmap, signers) =
     (case validatorAddrToIndex (From vote) of
        None \<Rightarrow>
          managerVotes env validatorAddrToIndex validatorsMetadata votes
            (signatures, publicKeys, bitmap, signers)
      | Some index \<Rightarrow>
          (case UnmarshalSignature env (Signature vote) of
             Inl err \<Rightarrow> Inl err
           | Inr signature \<Rightarrow>
               managerVotes env validatorAddrToIndex validatorsMetadata votes
                 (signatures @ [signature],
                  publicKeys @ [BlsKey (validatorsMetadata ! index)],
                  insert index bitmap,
                  insert (StringToAddress env (From vote)) signers)))"

definition getAggSignatureForCommitmentMessage ::
  "'z deps_scheme \<Rightarrow> stateSyncManager \<Rightarrow> Commitment \<Rightarrow> error + Signature \<times> bytes list" where
  "getAggSignatureForCommitmentMessage env s commitment =
     (case validatorSet s of
        None \<Rightarrow> Inl NilDereference
      | Some valSet \<Rightarrow>
          (let validatorsMetadata = Accounts valSet;
               validatorAddrToIndex = addrToIndex env validatorsMetadata
           in case commitmentHash env commitment of
                Inl err \<Rightarrow> Inl err
              | Inr hashBytes \<Rightarrow>
                  (case getMessageVotes (state s) (Epoch commitment) hashBytes of
                     Inl err \<Rightarrow> Inl err
                   | Inr votes \<Rightarrow>
                       (case managerVotes env validatorAddrToIndex validatorsMetadata votes
                               ([], [], {}, {}) of
                          Inl err \<Rightarrow> Inl err
                        | Inr (signatures, publicKeys, bitmap, signers) \<Rightarrow>
                            if \<not> HasQuorum valSet signers then Inl errQuorumNotReached
                            else (case AggregateMarshal env signatures of
                                    Inl err \<Rightarrow> Inl err
                                  | Inr aggregatedSignature \<Rightarrow>
                                      Inr (\<lparr>AggregatedSignature = aggregatedSignature,
                                            Bitmap = bitmap\<rparr>,
                                           publicKeys))))))"

text \<open>
  The loop of \<^verbatim>\<open>Commitment\<close>, over the pending commitments from the last to the first
  (the argument is the reversed list).
\<close>

fun commitmentLoop ::
  "'z deps_scheme \<Rightarrow> stateSyncManager \<Rightarrow> Commitment list \<Rightarrow> error + CommitmentMessageSigned option" where
  "commitmentLoop env s [] = Inr None"
| "commitmentLoop env s (commitment # older) =
     (case getAggSignatureForCommitmentMessage env s commitment of
        Inl err \<Rightarrow>
          if errorsIs err errQuorumNotReached then commitmentLoop env s older else Inl err
      | Inr (aggregatedSignature, publicKeys) \<Rightarrow>
          Inr (Some \<lparr>Message = NewCommitmentMessage (treeHash env (MerkleTree commitment))
                                 (FromIndex commitment) (ToIndex commitment),
                     AggSignature = aggregatedSignature,
                     PublicKeys = publicKeys\<rparr>))"

definition Commitment ::
  "'z deps_scheme \<Rightarrow> stateSyncManager \<Rightarrow> error + CommitmentMessageSigned option" where
  "Commitment env s = commitmentLoop env s (rev (pendingCommitments s))"

subsection \<open>Names for the steps of buildCommitment\<close>

text \<open>
  The events the build scans (the window of \<open>maxCommitmentSize\<close> ids starting at
  \<open>nextCommittedIndex\<close>), the guard "already built a commitment of this size", and the
  manager after a commitment \<open>c\<close> with digest \<open>h\<close> and signature \<open>sg\<close> was built: the
  self-vote is in the store, the transport message is published, \<open>c\<close> is appended.
\<close>

definition scanWindow :: "'z deps_scheme \<Rightarrow> stateSyncManager \<Rightarrow> StateSyncEvent list" where
  "scanWindow env s =
     fst (getStateSyncEventsForCommitment (state s) (nextCommittedIndex s)
            (nextCommittedIndex s + maxCommitmentSize env - 1))"

definition covered :: "'z deps_scheme \<Rightarrow> stateSyncManager \<Rightarrow> bool" where
  "covered env s =
     (pendingCommitments s \<noteq> [] \<and>
      ID (last (scanWindow env s)) \<le> ToIndex (last (pendingCommitments s)))"

definition built ::
  "'z deps_scheme \<Rightarrow> stateSyncManager \<Rightarrow> Commitment \<Rightarrow> bytes \<Rightarrow> bytes \<Rightarrow> stateSyncManager" where
  "built env s c h sg =
     s\<lparr>state := fst (putMessageVote (state s) (epoch s) h \<lparr>From = keyString env, Signature = sg\<rparr>),
       published := published s @
          [\<lparr>Hash = h, MsgSignature = sg, NodeID = keyString env, EpochNumber = epoch s\<rparr>],
       pendingCommitments := pendingCommitments s @ [c]\<rparr>"

subsection \<open>PostEpoch\<close>

text \<open>
  The request of \<^verbatim>\<open>PostEpoch\<close>: the new epoch, its validator set, and what
  \<^verbatim>\<open>SystemState.GetNextCommittedIndex\<close> answers.
\<close>

record PostEpochRequest =
  NewEpochID :: uint64
  ReqValidatorSet :: "ValidatorSet option"
  GetNextCommittedIndex :: "error + uint64"

definition PostEpoch ::
  "'z deps_scheme \<Rightarrow> stateSyncManager \<Rightarrow> PostEpochRequest \<Rightarrow> stateSyncManager \<times> error option" where
  "PostEpoch env s req =
     (let s1 = s\<lparr>pendingCommitments := [],
                 validatorSet := ReqValidatorSet req,
                 epoch := NewEpochID req\<rparr>
      in case GetNextCommittedIndex req of
           Inl err \<Rightarrow> (s1, Some err)
         | Inr index \<Rightarrow> buildCommitment env (s1\<lparr>nextCommittedIndex := index\<rparr>))"

subsection \<open>PostBlock, buildProofs and GetStateSyncProof\<close>

text \<open>
  Modelled from the spec: the test for a commitment-submission transaction is missing;
  such a transaction is "identified by its well-known method selector + target
  contract".
\<close>

definition isCommitTx :: "'z deps_scheme \<Rightarrow> Transaction \<Rightarrow> bool" where
  "isCommitTx env tx =
     (To tx = Some (commitTarget env) \<and>
      take (length (commitSelector env)) (Input tx) = commitSelector env)"

text \<open>
  Modelled from the spec: \<^verbatim>\<open>getCommitmentMessageSignedTx\<close> is missing; the block's
  transactions are scanned for a commitment-submission transaction, and the input of
  the first one is decoded.
\<close>

definition getCommitmentMessageSignedTx ::
  "'z deps_scheme \<Rightarrow> Transaction list \<Rightarrow> error + CommitmentMessageSigned option" where
  "getCommitmentMessageSignedTx env txs =
     (case find (isCommitTx env) txs of
        None \<Rightarrow> Inr None
      | Some tx \<Rightarrow>
          (case decodeCommitInput env (Input tx) of
             Inl err \<Rightarrow> Inl err
           | Inr commitment \<Rightarrow> Inr (Some commitment)))"

definition buildProofs ::
  "'z deps_scheme \<Rightarrow> stateSyncManager \<Rightarrow> CommitmentMessage \<Rightarrow> stateSyncManager \<times> error option" where
  "buildProofs env s commitmentMsg =
     (case getStateSyncEventsForCommitment (state s)
             (MsgFromIndex commitmentMsg) (MsgToIndex commitmentMsg) of
        (events, Some err) \<Rightarrow>
          (s, Some (Wrap ''failed to get state sync events for commitment to build proofs'' err))
      | (events, None) \<Rightarrow>
          (case createMerkleTree env events of
             Inl err \<Rightarrow> (s, Some err)
           | Inr tree \<Rightarrow>
               (let proofs =
                      map (\<lambda>(i, event). \<lparr>Proof = GenerateProof env tree i, StateSync = event\<rparr>)
                        (enumerate 0 events)
                in case insertStateSyncProofs (state s) proofs of
                     Inl err \<Rightarrow> (s, Some err)
                   | Inr st \<Rightarrow> (s\<lparr>state := st\<rparr>, None))))"

definition PostBlock ::
  "'z deps_scheme \<Rightarrow> stateSyncManager \<Rightarrow> Transaction list \<Rightarrow> stateSyncManager \<times> error option" where
  "PostBlock env s transactions =
     (case getCommitmentMessageSignedTx env transactions of
        Inl err \<Rightarrow> (s, Some err)
      | Inr None \<Rightarrow> (s, None)
      | Inr (Some commitment) \<Rightarrow>
          (case insertCommitmentMessage (state s) commitment of
             Inl err \<Rightarrow> (s, Some (Wrap ''insert commitment message error'' err))
           | Inr st \<Rightarrow>
               (case buildProofs env (s\<lparr>state := st\<rparr>) (Message commitment) of
                  (s2, Some err) \<Rightarrow> (s2, Some (Wrap ''build commitment proofs error'' err))
                | (s2, None) \<Rightarrow>
                    (s2\<lparr>nextCommittedIndex := MsgToIndex (Message commitment) + 1,
                        pendingCommitments := []\<rparr>,
                     None))))"


text \<open>
  The operations of the store that return no error of their own are unfolded to what
  they write or read.
\<close>

declare insertStateSyncEvent_def [simp] insertMessageVote_def [simp] getMessageVotes_def [simp]
  insertCommitmentMessage_def [simp] insertStateSyncProofs_def [simp] getStateSyncProof_def [simp]

subsection \<open>Quorum of a pending commitment\<close>






text \<open>The pending list is kept in strictly increasing order of \<open>ToIndex\<close>.\<close>

definition pendingSorted :: "stateSyncManager \<Rightarrow> bool" where
  "pendingSorted s = sorted_wrt (\<lambda>a b. ToIndex a < ToIndex b) (pendingCommitments s)"

subsection \<open>Names for the statements about proofs\<close>



subsection \<open>Operations and the invariant of the pending list\<close>


text \<open>
  The operations that touch the per-epoch fields, and the manager after each;
  \<^verbatim>\<open>Commitment\<close> only reads.
\<close>

datatype operation =
    OpPostEpoch PostEpochRequest
  | OpPostBlock "Transaction list"
  | OpAddLog Log
  | OpCommitment

fun perform :: "'z deps_scheme \<Rightarrow> stateSyncManager \<Rightarrow> operation \<Rightarrow> stateSyncManager" where
  "perform env s (OpPostEpoch req) = fst (PostEpoch env s req)"
| "perform env s (OpPostBlock transactions) = fst (PostBlock env s transactions)"
| "perform env s (OpAddLog eventLog) = AddLog env s eventLog"
| "perform env s OpCommitment = s"







section \<open>A concrete configuration\<close>

text \<open>
  A small instance of the collaborators, a validator set of four accounts whose quorum
  rule asks for three signers, and an empty store; the theorems below are instantiated
  at these values.
\<close>

definition testEnv :: deps where
  "testEnv = \<lparr>
     StringToAddress = (\<lambda>s. if s = ''A'' then [1] else if s = ''B'' then [2]
                           else if s = ''C'' then [3] else if s = ''D'' then [4] else []),
     AddressString = (\<lambda>a. if a = [1] then ''A'' else if a = [2] then ''B''
                         else if a = [3] then ''C'' else if a = [4] then ''D'' else ''''),
     UnmarshalSignature = (\<lambda>b. if b = [] then Inl (Errorf ''empty signature'') else Inr b),
     AggregateMarshal = (\<lambda>sigs. Inr (concat sigs)),
     keySign = (\<lambda>h. Inr (1 # h)),
     keyString = ''A'',
     maxCommitmentSize = 10,
     createMerkleTree = (\<lambda>evs. if evs = [] then Inl (Errorf ''empty tree'') else Inr [map Data evs]),
     treeHash = (\<lambda>t. concat (concat t)),
     GenerateProof = (\<lambda>t i. [[of_nat i]]),
     hashTriple = (\<lambda>r f t. Inr (r @ [ucast f, ucast t])),
     abiMatch = (\<lambda>l. Topics l \<noteq> []),
     parseStateSyncLog =
       (\<lambda>l. case LogData l of
               [] \<Rightarrow> Inl (Errorf ''bad log'')
             | b # bs \<Rightarrow> Inr \<lparr>ID = ucast b, Sender = [], Receiver = [], Data = bs\<rparr>),
     commitTarget = [9],
     commitSelector = [1, 2, 3, 4],
     decodeCommitInput =
       (\<lambda>inp. case drop 4 inp of
                 f # t # r \<Rightarrow>
                   Inr \<lparr>Message = \<lparr>MerkleRootHash = r, MsgFromIndex = ucast f, MsgToIndex = ucast t\<rparr>,
                        AggSignature = \<lparr>AggregatedSignature = [], Bitmap = {}\<rparr>,
                        PublicKeys = []\<rparr>
               | _ \<Rightarrow> Inl (Errorf ''bad input''))\<rparr>"

definition vals4 :: "ValidatorMetadata list" where
  "vals4 = [\<lparr>Address = [1], BlsKey = [11]\<rparr>, \<lparr>Address = [2], BlsKey = [12]\<rparr>,
            \<lparr>Address = [3], BlsKey = [13]\<rparr>, \<lparr>Address = [4], BlsKey = [14]\<rparr>]"

definition valSet4 :: ValidatorSet where
  "valSet4 = \<lparr>Accounts = vals4,
              HasQuorum = (\<lambda>signers. 3 \<le> length (filter (\<lambda>a. a \<in> signers) (map Address vals4)))\<rparr>"

definition emptyState :: State where
  "emptyState = \<lparr>stateSyncEvents = [], messageVotes = (\<lambda>k. []),
                 commitmentMessages = [], stateSyncProofs = []\<rparr>"

definition event :: "uint64 \<Rightarrow> StateSyncEvent" where
  "event i = \<lparr>ID = i, Sender = [1], Receiver = [2], Data = [ucast i]\<rparr>"

text \<open>The manager at epoch 7 with validator set \<open>valSet4\<close>, next committed index 10.\<close>

definition manager7 :: "State \<Rightarrow> Commitment list \<Rightarrow> stateSyncManager" where
  "manager7 st pending =
     \<lparr>state = st, pendingCommitments = pending, validatorSet = Some valSet4,
      epoch = 7, nextCommittedIndex = 10, published = []\<rparr>"

text \<open>A store holding the votes of A and B for digest \<open>[5]\<close> at epoch 7.\<close>

definition votesAB :: State where
  "votesAB = emptyState\<lparr>messageVotes :=
      (\<lambda>k. if k = (7, [5]) then [\<lparr>From = ''A'', Signature = [1]\<rparr>, \<lparr>From = ''B'', Signature = [2]\<rparr>]
            else [])\<rparr>"

definition voteOf :: "string \<Rightarrow> uint64 \<Rightarrow> TransportMessage" where
  "voteOf sender e = \<lparr>Hash = [5], MsgSignature = [8], NodeID = sender, EpochNumber = e\<rparr>"

definition st1011 :: State where
  "st1011 = emptyState\<lparr>stateSyncEvents := [event 11, event 10]\<rparr>"

definition st10 :: State where
  "st10 = emptyState\<lparr>stateSyncEvents := [event 10]\<rparr>"

definition c1011 :: Commitment where
  "c1011 = \<lparr>MerkleTree = [[[10], [11]]], Epoch = 7, FromIndex = 10, ToIndex = 11\<rparr>"

definition log10 :: Log where
  "log10 = \<lparr>LogAddress = [7], Topics = [[1]], LogData = [10, 10]\<rparr>"




















section \<open>Evaluation of the concrete configuration\<close>

lemma idx4: "addrToIndex testEnv vals4 = [''A'' \<mapsto> 0, ''B'' \<mapsto> 1, ''C'' \<mapsto> 2, ''D'' \<mapsto> 3]"
  by (simp add: addrToIndex_def testEnv_def vals4_def enumerate_eq_zip)
     (simp add: numeral_2_eq_2 numeral_3_eq_3)

lemma runtimeVotes_votesAB:
  "runtimeVotes testEnv (addrToIndex testEnv vals4)
     (votesAt votesAB 7 [5]) ([], {}) = Inr ([[1], [2]], {0, 1})"
  unfolding idx4
  by (simp add: votesAt_def votesAB_def emptyState_def testEnv_def insert_commute)

lemma includes4: "Includes valSet4 (StringToAddress testEnv ''B'')" "\<not> Includes valSet4 (StringToAddress testEnv ''X'')"
  by (simp_all add: Includes_def valSet4_def vals4_def testEnv_def)

lemma idRange_10_19: "idRange 10 19 = [10, 11, 12, 13, 14, 15, 16, 17, 18, 19]"
  by (simp add: idRange_def upt_rec)

lemma scan1011: "scanWindow testEnv (manager7 st1011 []) = [event 10, event 11]"
  by (simp add: scanWindow_def getStateSyncEventsForCommitment_def manager7_def testEnv_def
      idRange_10_19 List.map_filter_def eventAt_def st1011_def emptyState_def event_def)

section \<open>Claim C2\<close>

lemma getQuorumSize_ceiling: "getQuorumSize (int n) = \<lceil>real n / 2\<rceil>"
proof -
  have "\<lceil>real n / 2\<rceil> = \<lceil>of_int (int n) / (of_int 2 :: real)\<rceil>" by simp
  also have "\<dots> = - (- int n div 2)" by (rule ceiling_divide_eq_div)
  also have "\<dots> = (int n + 1) div 2" by presburger
  finally show ?thesis by (simp add: getQuorumSize_def signed_divide_int_def)
qed

text \<open>
  C2, as stated: for every validator-set size N the number of signatures required for
  aggregation to proceed is the ceiling of 2N/3. It fails at N = 4: the runtime asks
  for \<open>getQuorumSize 4 = 2\<close> signatures, while the ceiling of 8/3 is 3, and with the two
  votes of A and B out of four validators the aggregation goes through.
\<close>

theorem C2_counterexample:
  "getQuorumSize (int 4) \<noteq> twoThirdsCeil 4 \<and>
   runtime_getAggSignatureForCommitmentMessage testEnv votesAB \<lparr>Number = 7, Validators = vals4\<rparr> [5]
     = Inr \<lparr>AggregatedSignature = [1, 2], Bitmap = {0, 1}\<rparr>"
proof -
  have "AggregateMarshal testEnv [[1], [2]] = Inr [1, 2]" by (simp add: testEnv_def)
  moreover have "length vals4 = 4" by (simp add: vals4_def)
  ultimately show ?thesis
    using runtimeVotes_votesAB
    by (simp add: runtime_getAggSignatureForCommitmentMessage_def getQuorumSize_def
        twoThirdsCeil_def signed_divide_int_def)
qed

text \<open>
  C2, amended: for every validator-set size N the threshold \<open>getQuorumSize N\<close> is the
  ceiling of N/2, and the runtime's aggregation, once the votes are decoded, answers
  "quorum not reached" exactly when fewer signatures than that were collected, and
  otherwise goes on to aggregate them.
\<close>

theorem C2_quorum_threshold:
  assumes "runtimeVotes env (addrToIndex env (Validators ep))
             (votesAt st (Number ep) h) ([], {}) = Inr (signatures, bitmap)"
  shows "getQuorumSize (int (length (Validators ep))) = \<lceil>real (length (Validators ep)) / 2\<rceil> \<and>
         runtime_getAggSignatureForCommitmentMessage env st ep h =
           (if int (length signatures) < \<lceil>real (length (Validators ep)) / 2\<rceil>
            then Inl errQuorumNotReached
            else (case AggregateMarshal env signatures of
                    Inl err \<Rightarrow> Inl err
                  | Inr aggregatedSignature \<Rightarrow>
                      Inr \<lparr>AggregatedSignature = aggregatedSignature, Bitmap = bitmap\<rparr>))"
  using assms
  by (simp add: runtime_getAggSignatureForCommitmentMessage_def getQuorumSize_ceiling)

theorem C2_quorum_threshold_witness:
  "runtimeVotes testEnv (addrToIndex testEnv (Validators \<lparr>Number = 7, Validators = vals4\<rparr>))
           (votesAt votesAB (Number \<lparr>Number = 7, Validators = vals4\<rparr>) [5]) ([], {})
       = Inr ([[1], [2]], {0, 1}) \<and>
   getQuorumSize 4 = 2 \<and>
   runtime_getAggSignatureForCommitmentMessage testEnv votesAB \<lparr>Number = 7, Validators = vals4\<rparr> [5]
       = Inr \<lparr>AggregatedSignature = [1, 2], Bitmap = {0, 1}\<rparr>"
proof -
  have h: "runtimeVotes testEnv (addrToIndex testEnv (Validators \<lparr>Number = 7, Validators = vals4\<rparr>))
           (votesAt votesAB (Number \<lparr>Number = 7, Validators = vals4\<rparr>) [5]) ([], {})
       = Inr ([[1], [2]], {0, 1})"
    using runtimeVotes_votesAB by simp
  have l: "length vals4 = 4" by (simp add: vals4_def)
  have a: "AggregateMarshal testEnv [[1], [2]] = Inr [1, 2]" by (simp add: testEnv_def)
  show ?thesis
    using C2_quorum_threshold [OF h] h l a by simp
qed

section \<open>The store: votes\<close>

lemma upsertVote_mem: "vote \<in> set (upsertVote vote votes)"
  by (auto simp: upsertVote_def image_iff)

lemma putMessageVote_mem:
  "vote \<in> set (votesAt (fst (putMessageVote st e h vote)) e h)"
  by (simp add: putMessageVote_def votesAt_def Let_def upsertVote_mem)

lemma putMessageVote_other:
  "(e', h') \<noteq> (e, h) \<Longrightarrow>
   votesAt (fst (putMessageVote st e h vote)) e' h' = votesAt st e' h'"
  by (auto simp: putMessageVote_def votesAt_def Let_def)

lemma saveVote_accept:
  assumes "validatorSet s = Some valSet" "\<not> EpochNumber msg < epoch s"
    "Includes valSet (StringToAddress env (NodeID msg))"
  shows "saveVote env s msg =
          (s\<lparr>state := fst (putMessageVote (state s) (EpochNumber msg) (Hash msg)
                              \<lparr>From = NodeID msg, Signature = MsgSignature msg\<rparr>)\<rparr>, None)"
  using assms by (simp add: saveVote_def Let_def split: prod.splits)


section \<open>Claim C6\<close>

text \<open>
  C6: for every gossip vote, \<^verbatim>\<open>saveVote\<close> (1) drops it, with no error and the manager
  and store unchanged, when no validator set is installed or the vote's epoch is below
  the current epoch; (2) otherwise fails with the error "validator is not among the
  active validator set", the store unchanged, when the sender's address is not in the
  current validator set; (3) otherwise returns no error and the store is the old one
  with the vote written by \<^verbatim>\<open>insertMessageVote\<close> under the message's epoch and hash,
  where the vote is then found. The subscription handler of \<^verbatim>\<open>initTransport\<close> hands each decoded
  message to \<^verbatim>\<open>saveVote\<close> and keeps the manager it leaves.
\<close>

theorem C6_saveVote:
  "(validatorSet s = None \<or> EpochNumber msg < epoch s \<longrightarrow> saveVote env s msg = (s, None)) \<and>
   (\<forall>valSet. validatorSet s = Some valSet \<and> \<not> EpochNumber msg < epoch s \<and>
        \<not> Includes valSet (StringToAddress env (NodeID msg)) \<longrightarrow>
        saveVote env s msg = (s, Some (Errorf ''validator is not among the active validator set''))) \<and>
   (\<forall>valSet. validatorSet s = Some valSet \<and> \<not> EpochNumber msg < epoch s \<and>
        Includes valSet (StringToAddress env (NodeID msg)) \<longrightarrow>
        saveVote env s msg =
          (s\<lparr>state := fst (putMessageVote (state s) (EpochNumber msg) (Hash msg)
                              \<lparr>From = NodeID msg, Signature = MsgSignature msg\<rparr>)\<rparr>, None) \<and>
        \<lparr>From = NodeID msg, Signature = MsgSignature msg\<rparr>
          \<in> set (votesAt (state (fst (saveVote env s msg))) (EpochNumber msg) (Hash msg))) \<and>
   handleGossip env s (Some msg) = fst (saveVote env s msg)"
proof (intro conjI allI impI)
  show "handleGossip env s (Some msg) = fst (saveVote env s msg)"
    by (simp add: handleGossip_def)
next
  assume "validatorSet s = None \<or> EpochNumber msg < epoch s"
  then show "saveVote env s msg = (s, None)"
    by (auto simp: saveVote_def split: option.splits)
next
  fix valSet
  assume "validatorSet s = Some valSet \<and> \<not> EpochNumber msg < epoch s \<and>
        \<not> Includes valSet (StringToAddress env (NodeID msg))"
  then show "saveVote env s msg = (s, Some (Errorf ''validator is not among the active validator set''))"
    by (simp add: saveVote_def)
next
  fix valSet
  assume a: "validatorSet s = Some valSet \<and> \<not> EpochNumber msg < epoch s \<and>
        Includes valSet (StringToAddress env (NodeID msg))"
  then show r: "saveVote env s msg =
          (s\<lparr>state := fst (putMessageVote (state s) (EpochNumber msg) (Hash msg)
                              \<lparr>From = NodeID msg, Signature = MsgSignature msg\<rparr>)\<rparr>, None)"
    by (simp add: saveVote_accept)
  show "\<lparr>From = NodeID msg, Signature = MsgSignature msg\<rparr>
          \<in> set (votesAt (state (fst (saveVote env s msg))) (EpochNumber msg) (Hash msg))"
    by (simp add: r putMessageVote_mem)
qed

theorem C6_saveVote_witness:
  "saveVote testEnv (manager7 emptyState []) (voteOf ''B'' 6) = (manager7 emptyState [], None) \<and>
   saveVote testEnv (manager7 emptyState []) (voteOf ''X'' 7)
     = (manager7 emptyState [], Some (Errorf ''validator is not among the active validator set'')) \<and>
   snd (saveVote testEnv (manager7 emptyState []) (voteOf ''B'' 7)) = None \<and>
   votesAt (state (fst (saveVote testEnv (manager7 emptyState []) (voteOf ''B'' 7)))) 7 [5]
     = [\<lparr>From = ''B'', Signature = [8]\<rparr>]"
proof -
  let ?s = "manager7 emptyState []"
  have v: "validatorSet ?s = Some valSet4" and e: "epoch ?s = 7"
    by (simp_all add: manager7_def)
  have a: "saveVote testEnv ?s (voteOf ''B'' 6) = (?s, None)"
    using C6_saveVote [of ?s "voteOf ''B'' 6" testEnv] by (simp add: e voteOf_def)
  have b: "saveVote testEnv ?s (voteOf ''X'' 7)
             = (?s, Some (Errorf ''validator is not among the active validator set''))"
    using C6_saveVote [of ?s "voteOf ''X'' 7" testEnv] v includes4 by (simp add: e voteOf_def)
  have c: "saveVote testEnv ?s (voteOf ''B'' 7) =
          (?s\<lparr>state := fst (putMessageVote (state ?s) 7 [5] \<lparr>From = ''B'', Signature = [8]\<rparr>)\<rparr>, None)"
    using C6_saveVote [of ?s "voteOf ''B'' 7" testEnv] v includes4 by (simp add: e voteOf_def)
  have d: "votesAt (fst (putMessageVote (state ?s) 7 [5] \<lparr>From = ''B'', Signature = [8]\<rparr>)) 7 [5]
           = [\<lparr>From = ''B'', Signature = [8]\<rparr>]"
    by (simp add: putMessageVote_def votesAt_def upsertVote_def manager7_def emptyState_def)
  show ?thesis using a b c d by simp
qed

section \<open>Claim C10\<close>

text \<open>
  C10: a vote whose epoch is strictly greater than the current epoch, from a sender in
  the current validator set, is not dropped: \<^verbatim>\<open>saveVote\<close> returns no error, the vote is
  stored under the message's own epoch number, and the votes under the current epoch
  for that hash are as before.
\<close>

theorem C10_future_epoch_vote:
  assumes "validatorSet s = Some valSet"
    and "epoch s < EpochNumber msg"
    and "Includes valSet (StringToAddress env (NodeID msg))"
  shows "saveVote env s msg =
           (s\<lparr>state := fst (putMessageVote (state s) (EpochNumber msg) (Hash msg)
                               \<lparr>From = NodeID msg, Signature = MsgSignature msg\<rparr>)\<rparr>, None) \<and>
         \<lparr>From = NodeID msg, Signature = MsgSignature msg\<rparr>
           \<in> set (votesAt (state (fst (saveVote env s msg))) (EpochNumber msg) (Hash msg)) \<and>
         votesAt (state (fst (saveVote env s msg))) (epoch s) (Hash msg)
           = votesAt (state s) (epoch s) (Hash msg)"
proof -
  have ne: "\<not> EpochNumber msg < epoch s" using assms(2) by simp
  have r: "saveVote env s msg =
           (s\<lparr>state := fst (putMessageVote (state s) (EpochNumber msg) (Hash msg)
                               \<lparr>From = NodeID msg, Signature = MsgSignature msg\<rparr>)\<rparr>, None)"
    using assms(1) ne assms(3) by (rule saveVote_accept)
  have k: "(epoch s, Hash msg) \<noteq> (EpochNumber msg, Hash msg)" using assms(2) by auto
  show ?thesis
    using r putMessageVote_mem putMessageVote_other [OF k] by simp
qed

theorem C10_future_epoch_vote_witness:
  "snd (saveVote testEnv (manager7 emptyState []) (voteOf ''B'' 9)) = None \<and>
   votesAt (state (fst (saveVote testEnv (manager7 emptyState []) (voteOf ''B'' 9)))) 9 [5]
     = [\<lparr>From = ''B'', Signature = [8]\<rparr>] \<and>
   votesAt (state (fst (saveVote testEnv (manager7 emptyState []) (voteOf ''B'' 9)))) 7 [5] = []"
proof -
  let ?s = "manager7 emptyState []"
  have v: "validatorSet ?s = Some valSet4" by (simp add: manager7_def)
  have e: "epoch ?s < EpochNumber (voteOf ''B'' 9)" by (simp add: manager7_def voteOf_def)
  have i: "Includes valSet4 (StringToAddress testEnv (NodeID (voteOf ''B'' 9)))"
    using includes4 by (simp add: voteOf_def)
  have d: "votesAt (fst (putMessageVote (state ?s) 9 [5] \<lparr>From = ''B'', Signature = [8]\<rparr>)) 9 [5]
           = [\<lparr>From = ''B'', Signature = [8]\<rparr>]"
    by (simp add: putMessageVote_def votesAt_def upsertVote_def manager7_def emptyState_def)
  have z: "votesAt (state ?s) 7 [5] = []"
    by (simp add: votesAt_def manager7_def emptyState_def)
  have ep: "epoch ?s = 7" by (simp add: manager7_def)
  note t = C10_future_epoch_vote [OF v e i]
  have t1: "saveVote testEnv ?s (voteOf ''B'' 9) =
      (?s\<lparr>state := fst (putMessageVote (state ?s) 9 [5] \<lparr>From = ''B'', Signature = [8]\<rparr>)\<rparr>, None)"
    using t by (simp add: voteOf_def)
  have t3: "votesAt (state (fst (saveVote testEnv ?s (voteOf ''B'' 9)))) 7 [5]
      = votesAt (state ?s) 7 [5]"
    using conjunct2 [OF conjunct2 [OF t]] by (simp add: voteOf_def ep)
  show ?thesis
    using t1 t3 d z by simp
qed

section \<open>The commitment build\<close>

lemma scan_error:
  "getStateSyncEventsForCommitment st f t = (events, Some e) \<Longrightarrow> e = errNotEnoughStateSyncs"
  by (auto simp: getStateSyncEventsForCommitment_def Let_def split: if_splits)

lemma scan_error_short:
  "getStateSyncEventsForCommitment st f t = (events, None) \<Longrightarrow> minCommitmentSize \<le> length events"
  by (auto simp: getStateSyncEventsForCommitment_def Let_def split: if_splits)

lemma buildCommitment_unfold:
  "buildCommitment env s =
     (if length (scanWindow env s) < minCommitmentSize then (s, None)
      else if covered env s then (s, None)
      else (case NewCommitment env (epoch s) (scanWindow env s) of
              Inl e \<Rightarrow> (s, Some e)
            | Inr c \<Rightarrow>
                (case commitmentHash env c of
                   Inl e \<Rightarrow> (s, Some (Wrap ''failed to generate hash for commitment'' e))
                 | Inr h \<Rightarrow>
                     (case keySign env h of
                        Inl e \<Rightarrow> (s, Some (Wrap ''failed to sign commitment message'' e))
                      | Inr sg \<Rightarrow> (built env s c h sg, None)))))"
proof -
  obtain events err where sc: "getStateSyncEventsForCommitment (state s) (nextCommittedIndex s)
            (nextCommittedIndex s + maxCommitmentSize env - 1) = (events, err)"
    by (cases "getStateSyncEventsForCommitment (state s) (nextCommittedIndex s)
            (nextCommittedIndex s + maxCommitmentSize env - 1)") auto
  have w: "scanWindow env s = events" by (simp add: scanWindow_def sc)
  have e: "(case err of
              None \<Rightarrow> None
            | Some e \<Rightarrow> if errorsIs e errNotEnoughStateSyncs then None else Some e) = None"
    using sc by (cases err) (auto dest: scan_error)
  show ?thesis
    using e
    by (auto simp: buildCommitment_def sc w covered_def built_def Let_def
        split: sum.splits prod.splits)
qed


lemma scanWindow_cong:
  "stateSyncEvents (state s') = stateSyncEvents (state s) \<Longrightarrow>
   nextCommittedIndex s' = nextCommittedIndex s \<Longrightarrow>
   scanWindow env s' = scanWindow env s"
proof -
  assume a: "stateSyncEvents (state s') = stateSyncEvents (state s)"
    and b: "nextCommittedIndex s' = nextCommittedIndex s"
  have "eventAt (state s') = eventAt (state s)"
    by (rule ext) (simp add: eventAt_def a)
  then show ?thesis
    by (simp add: scanWindow_def getStateSyncEventsForCommitment_def b)
qed

lemma putMessageVote_events [simp]:
  "stateSyncEvents (fst (putMessageVote st e h v)) = stateSyncEvents st"
  by (simp add: putMessageVote_def Let_def)

lemma scanWindow_built [simp]: "scanWindow env (built env s c h sg) = scanWindow env s"
  by (rule scanWindow_cong) (simp_all add: built_def)

lemma NewCommitment_fields:
  "NewCommitment env e events = Inr c \<Longrightarrow>
   Epoch c = e \<and> FromIndex c = ID (hd events) \<and> ToIndex c = ID (last events)"
  by (auto simp: NewCommitment_def split: sum.splits)

lemma buildCommitment_result:
  assumes "buildCommitment env s = (s', r)"
  shows "s' = s \<or>
         (\<exists>c h sg. minCommitmentSize \<le> length (scanWindow env s) \<and> \<not> covered env s \<and>
            NewCommitment env (epoch s) (scanWindow env s) = Inr c \<and>
            commitmentHash env c = Inr h \<and> keySign env h = Inr sg \<and>
            s' = built env s c h sg \<and> r = None)"
  using assms unfolding buildCommitment_unfold
  by (auto split: if_splits sum.splits)

lemma covered_built:
  assumes "NewCommitment env (epoch s) (scanWindow env s) = Inr c"
  shows "covered env (built env s c h sg)"
  using NewCommitment_fields [OF assms]
  by (simp add: covered_def) (simp add: built_def)

lemma buildCommitment_idem:
  "fst (buildCommitment env (fst (buildCommitment env s))) = fst (buildCommitment env s)"
proof -
  obtain s' r where b: "buildCommitment env s = (s', r)" by (cases "buildCommitment env s") auto
  from buildCommitment_result [OF b] show ?thesis
  proof
    assume "s' = s" then show ?thesis using b by simp
  next
    assume "\<exists>c h sg. minCommitmentSize \<le> length (scanWindow env s) \<and> \<not> covered env s \<and>
            NewCommitment env (epoch s) (scanWindow env s) = Inr c \<and>
            commitmentHash env c = Inr h \<and> keySign env h = Inr sg \<and>
            s' = built env s c h sg \<and> r = None"
    then obtain c h sg where n: "NewCommitment env (epoch s) (scanWindow env s) = Inr c"
      and s': "s' = built env s c h sg" by blast
    have "covered env s'" unfolding s' by (rule covered_built [OF n])
    then have "buildCommitment env s' = (s', None)"
      by (simp add: buildCommitment_unfold)
    then show ?thesis using b by simp
  qed
qed

lemma buildCommitment_events:
  "stateSyncEvents (state (fst (buildCommitment env s))) = stateSyncEvents (state s)"
proof -
  obtain s' r where b: "buildCommitment env s = (s', r)" by (cases "buildCommitment env s") auto
  from buildCommitment_result [OF b] show ?thesis
    using b by (auto simp: built_def)
qed

lemma putStateSyncEvent_again:
  assumes "stateSyncEvents st' = stateSyncEvents (putStateSyncEvent st ev)"
  shows "putStateSyncEvent st' ev = st'"
proof -
  have "ev # filter (\<lambda>e. ID e \<noteq> ID ev) (stateSyncEvents st') = stateSyncEvents st'"
    using assms by (simp add: putStateSyncEvent_def)
  then show ?thesis by (simp add: putStateSyncEvent_def)
qed

lemma AddLog_idem: "AddLog env (AddLog env s eventLog) eventLog = AddLog env s eventLog"
proof (cases "abiMatch env eventLog")
  case False
  then show ?thesis by (simp add: AddLog_def)
next
  case True
  show ?thesis
  proof (cases "parseStateSyncLog env eventLog")
    case (Inl e)
    then show ?thesis using True by (simp add: AddLog_def)
  next
    case (Inr ev)
    let ?s1 = "s\<lparr>state := putStateSyncEvent (state s) ev\<rparr>"
    let ?s2 = "fst (buildCommitment env ?s1)"
    have a: "AddLog env s eventLog = ?s2" using True Inr by (simp add: AddLog_def)
    have "stateSyncEvents (state ?s2) = stateSyncEvents (putStateSyncEvent (state s) ev)"
      by (simp add: buildCommitment_events)
    then have "putStateSyncEvent (state ?s2) ev = state ?s2"
      by (rule putStateSyncEvent_again)
    then have "?s2\<lparr>state := putStateSyncEvent (state ?s2) ev\<rparr> = ?s2" by simp
    then have "AddLog env ?s2 eventLog = fst (buildCommitment env ?s2)"
      using True Inr by (simp add: AddLog_def)
    also have "\<dots> = ?s2" by (rule buildCommitment_idem)
    finally show ?thesis using a by simp
  qed
qed

lemma scan1011_pending: "scanWindow testEnv (manager7 st1011 pending) = [event 10, event 11]"
proof -
  have "scanWindow testEnv (manager7 st1011 pending) = scanWindow testEnv (manager7 st1011 [])"
    by (rule scanWindow_cong) (simp_all add: manager7_def)
  then show ?thesis by (simp add: scan1011)
qed

lemma scan10: "scanWindow testEnv (manager7 st10 []) = [event 10]"
  by (simp add: scanWindow_def getStateSyncEventsForCommitment_def manager7_def testEnv_def
      idRange_10_19 List.map_filter_def eventAt_def st10_def emptyState_def event_def)

lemma new1011: "NewCommitment testEnv 7 [event 10, event 11] = Inr c1011"
  by (simp add: NewCommitment_def testEnv_def event_def c1011_def)

lemma hash1011: "commitmentHash testEnv c1011 = Inr [10, 11, 10, 11]"
  by (simp add: commitmentHash_def testEnv_def c1011_def)

lemma sign1011: "keySign testEnv [10, 11, 10, 11] = Inr [1, 10, 11, 10, 11]"
  by (simp add: testEnv_def)

section \<open>Claim C5\<close>

text \<open>
  C5: when the newest pending commitment already reaches the last event id the scan
  yields, \<^verbatim>\<open>buildCommitment\<close> returns no error and leaves the whole manager as it was (no
  new commitment, no vote written, nothing published); and \<^verbatim>\<open>AddLog\<close> of the same log
  twice leaves the manager, its store and pending list included, as \<^verbatim>\<open>AddLog\<close> once.
\<close>

theorem C5_build_idempotent:
  "(pendingCommitments s \<noteq> [] \<and> scanWindow env s \<noteq> [] \<and>
      ID (last (scanWindow env s)) \<le> ToIndex (last (pendingCommitments s))
      \<longrightarrow> buildCommitment env s = (s, None)) \<and>
   AddLog env (AddLog env s eventLog) eventLog = AddLog env s eventLog"
  by (simp add: AddLog_idem buildCommitment_unfold covered_def)

theorem C5_build_idempotent_witness:
  "pendingCommitments (manager7 st1011 [c1011]) \<noteq> [] \<and>
   scanWindow testEnv (manager7 st1011 [c1011]) \<noteq> [] \<and>
   ID (last (scanWindow testEnv (manager7 st1011 [c1011])))
     \<le> ToIndex (last (pendingCommitments (manager7 st1011 [c1011]))) \<and>
   buildCommitment testEnv (manager7 st1011 [c1011]) = (manager7 st1011 [c1011], None) \<and>
   AddLog testEnv (AddLog testEnv (manager7 st1011 [c1011]) log10) log10
     = AddLog testEnv (manager7 st1011 [c1011]) log10"
proof -
  let ?s = "manager7 st1011 [c1011]"
  have p: "pendingCommitments ?s \<noteq> []" by (simp add: manager7_def)
  have w: "scanWindow testEnv ?s \<noteq> []" by (simp add: scan1011_pending)
  have c: "ID (last (scanWindow testEnv ?s)) \<le> ToIndex (last (pendingCommitments ?s))"
    by (simp add: scan1011_pending) (simp add: manager7_def c1011_def event_def)
  show ?thesis
    using C5_build_idempotent [of ?s testEnv log10] p w c by simp
qed

section \<open>Claim C4\<close>

text \<open>
  C4, as stated: whenever exactly \<open>minCommitmentSize = 2\<close> events are available in the
  window, the build appends a new pending commitment. It fails on the manager whose
  pending list already holds the commitment of events 10 and 11: the window has exactly
  two events and the build changes nothing.
\<close>

theorem C4_counterexample:
  "length (scanWindow testEnv (manager7 st1011 [c1011])) = minCommitmentSize \<and>
   buildCommitment testEnv (manager7 st1011 [c1011]) = (manager7 st1011 [c1011], None)"
proof -
  have "covered testEnv (manager7 st1011 [c1011])"
    by (simp add: covered_def scan1011_pending) (simp add: manager7_def c1011_def event_def)
  then show ?thesis
    by (simp add: buildCommitment_unfold scan1011_pending minCommitmentSize_def)
qed


text \<open>
  C4, amended: with exactly \<open>minCommitmentSize = 2\<close> events in the window, when the
  newest pending commitment (if any) ends before the last scanned event id and the
  commitment is constructed, hashed and signed without error, the build returns no
  error, appends the new commitment, publishes its transport message and records the
  self-vote under (epoch, digest); with fewer than \<open>minCommitmentSize\<close> events the build
  returns no error and changes nothing.
\<close>

theorem C4_build_boundary:
  "(length (scanWindow env s) = minCommitmentSize \<and> \<not> covered env s \<and>
      NewCommitment env (epoch s) (scanWindow env s) = Inr c \<and>
      commitmentHash env c = Inr h \<and> keySign env h = Inr sg
      \<longrightarrow> buildCommitment env s = (built env s c h sg, None) \<and>
          pendingCommitments (built env s c h sg) = pendingCommitments s @ [c] \<and>
          published (built env s c h sg) = published s @
            [\<lparr>Hash = h, MsgSignature = sg, NodeID = keyString env, EpochNumber = epoch s\<rparr>] \<and>
          \<lparr>From = keyString env, Signature = sg\<rparr>
            \<in> set (votesAt (state (built env s c h sg)) (epoch s) h)) \<and>
   (length (scanWindow env s) < minCommitmentSize \<longrightarrow> buildCommitment env s = (s, None))"
  by (simp add: buildCommitment_unfold) (simp add: built_def putMessageVote_mem)


theorem C4_build_boundary_witness:
  "length (scanWindow testEnv (manager7 st1011 [])) = minCommitmentSize \<and>
   \<not> covered testEnv (manager7 st1011 []) \<and>
   NewCommitment testEnv (epoch (manager7 st1011 [])) (scanWindow testEnv (manager7 st1011 [])) = Inr c1011 \<and>
   commitmentHash testEnv c1011 = Inr [10, 11, 10, 11] \<and>
   keySign testEnv [10, 11, 10, 11] = Inr [1, 10, 11, 10, 11] \<and>
   snd (buildCommitment testEnv (manager7 st1011 [])) = None \<and>
   pendingCommitments (fst (buildCommitment testEnv (manager7 st1011 []))) = [c1011] \<and>
   published (fst (buildCommitment testEnv (manager7 st1011 [])))
     = [\<lparr>Hash = [10, 11, 10, 11], MsgSignature = [1, 10, 11, 10, 11], NodeID = ''A'', EpochNumber = 7\<rparr>] \<and>
   votesAt (state (fst (buildCommitment testEnv (manager7 st1011 [])))) 7 [10, 11, 10, 11]
     = [\<lparr>From = ''A'', Signature = [1, 10, 11, 10, 11]\<rparr>] \<and>
   length (scanWindow testEnv (manager7 st10 [])) < minCommitmentSize \<and>
   buildCommitment testEnv (manager7 st10 []) = (manager7 st10 [], None)"
proof -
  let ?s = "manager7 st1011 []"
  have l: "length (scanWindow testEnv ?s) = minCommitmentSize"
    by (simp add: scan1011 minCommitmentSize_def)
  have nc: "\<not> covered testEnv ?s" by (simp add: covered_def manager7_def)
  have n: "NewCommitment testEnv (epoch ?s) (scanWindow testEnv ?s) = Inr c1011"
  proof -
    have "epoch ?s = 7" by (simp add: manager7_def)
    then show ?thesis by (simp add: scan1011 new1011)
  qed
  have b: "buildCommitment testEnv ?s = (built testEnv ?s c1011 [10, 11, 10, 11] [1, 10, 11, 10, 11], None)"
    using C4_build_boundary [of testEnv ?s c1011 "[10, 11, 10, 11]" "[1, 10, 11, 10, 11]"]
      l nc n hash1011 sign1011 by simp
  have v: "votesAt (state (built testEnv ?s c1011 [10, 11, 10, 11] [1, 10, 11, 10, 11])) 7 [10, 11, 10, 11]
     = [\<lparr>From = ''A'', Signature = [1, 10, 11, 10, 11]\<rparr>]"
    by (simp add: built_def manager7_def putMessageVote_def votesAt_def upsertVote_def
        st1011_def emptyState_def testEnv_def)
  have p: "pendingCommitments (built testEnv ?s c1011 [10, 11, 10, 11] [1, 10, 11, 10, 11]) = [c1011]"
    by (simp add: built_def manager7_def)
  have g: "published (built testEnv ?s c1011 [10, 11, 10, 11] [1, 10, 11, 10, 11])
     = [\<lparr>Hash = [10, 11, 10, 11], MsgSignature = [1, 10, 11, 10, 11], NodeID = ''A'', EpochNumber = 7\<rparr>]"
    by (simp add: built_def manager7_def testEnv_def)
  have l1: "length (scanWindow testEnv (manager7 st10 [])) < minCommitmentSize"
    by (simp add: scan10 minCommitmentSize_def)
  have b1: "buildCommitment testEnv (manager7 st10 []) = (manager7 st10 [], None)"
    using C4_build_boundary [of testEnv "manager7 st10 []"] l1 by simp
  show ?thesis
    using l nc n hash1011 sign1011 b v p g l1 b1 by simp
qed

section \<open>Commitment\<close>










section \<open>Claim C1\<close>

















section \<open>Building proofs\<close>

















lemma buildProofs_fields:
  "pendingCommitments (fst (buildProofs env s m)) = pendingCommitments s \<and>
   nextCommittedIndex (fst (buildProofs env s m)) = nextCommittedIndex s \<and>
   commitmentMessages (state (fst (buildProofs env s m))) = commitmentMessages (state s) \<and>
   stateSyncEvents (state (fst (buildProofs env s m))) = stateSyncEvents (state s)"
  by (auto simp: buildProofs_def Let_def putStateSyncProofs_def
      split: prod.splits option.splits sum.splits)






lemma putCommitmentMessage_fields [simp]:
  "stateSyncEvents (putCommitmentMessage st c) = stateSyncEvents st"
  "stateSyncProofs (putCommitmentMessage st c) = stateSyncProofs st"
  "c \<in> set (commitmentMessages (putCommitmentMessage st c))"
  by (simp_all add: putCommitmentMessage_def)








section \<open>Claim C3\<close>








section \<open>GetStateSyncProof\<close>





section \<open>Claim C7\<close>





section \<open>The invariant of the pending list\<close>








lemma sorted_last_le:
  "sorted_wrt (\<lambda>a b. ToIndex a < ToIndex b) xs \<Longrightarrow> x \<in> set xs \<Longrightarrow> ToIndex x \<le> ToIndex (last xs)"
proof (induction xs)
  case Nil
  then show ?case by simp
next
  case (Cons a xs)
  then show ?case by (cases "xs = []") (auto simp: less_imp_le dest: order.strict_trans2)
qed

lemma buildCommitment_pendingSorted:
  assumes "pendingSorted s"
  shows "pendingSorted (fst (buildCommitment env s))"
proof -
  obtain s' r where b: "buildCommitment env s = (s', r)" by (cases "buildCommitment env s") auto
  from buildCommitment_result [OF b] show ?thesis
  proof
    assume "s' = s" then show ?thesis using b assms by simp
  next
    assume "\<exists>c h sg. minCommitmentSize \<le> length (scanWindow env s) \<and> \<not> covered env s \<and>
            NewCommitment env (epoch s) (scanWindow env s) = Inr c \<and>
            commitmentHash env c = Inr h \<and> keySign env h = Inr sg \<and>
            s' = built env s c h sg \<and> r = None"
    then obtain c h sg where nc: "\<not> covered env s"
      and n: "NewCommitment env (epoch s) (scanWindow env s) = Inr c"
      and s': "s' = built env s c h sg" by blast
    have t: "ToIndex c = ID (last (scanWindow env s))" using NewCommitment_fields [OF n] by simp
    have "\<forall>x\<in>set (pendingCommitments s). ToIndex x < ToIndex c"
    proof
      fix x assume x: "x \<in> set (pendingCommitments s)"
      then have "pendingCommitments s \<noteq> []" by auto
      then have "ToIndex (last (pendingCommitments s)) < ToIndex c"
        using nc t by (simp add: covered_def not_le)
      moreover have "ToIndex x \<le> ToIndex (last (pendingCommitments s))"
        using assms x unfolding pendingSorted_def by (rule sorted_last_le)
      ultimately show "ToIndex x < ToIndex c" by simp
    qed
    then have "pendingSorted s'"
      using assms unfolding s' by (simp add: pendingSorted_def built_def sorted_wrt_append)
    then show ?thesis using b by simp
  qed
qed

lemma PostBlock_pending:
  "epoch (fst (PostBlock env s txs)) = epoch s \<and>
   (pendingCommitments (fst (PostBlock env s txs)) = [] \<or>
    pendingCommitments (fst (PostBlock env s txs)) = pendingCommitments s \<and>
    nextCommittedIndex (fst (PostBlock env s txs)) = nextCommittedIndex s)"
  by (auto simp: PostBlock_def buildProofs_def Let_def
      split: sum.splits option.splits prod.splits)

lemma PostEpoch_unfold:
  "fst (PostEpoch env s req) =
     (case GetNextCommittedIndex req of
        Inl err \<Rightarrow> s\<lparr>pendingCommitments := [], validatorSet := ReqValidatorSet req,
                      epoch := NewEpochID req\<rparr>
      | Inr index \<Rightarrow>
          fst (buildCommitment env
                 (s\<lparr>pendingCommitments := [], validatorSet := ReqValidatorSet req,
                    epoch := NewEpochID req, nextCommittedIndex := index\<rparr>)))"
  by (simp add: PostEpoch_def Let_def split: sum.splits)


lemma AddLog_unfold:
  "AddLog env s eventLog = s \<or>
   (\<exists>event. AddLog env s eventLog =
      fst (buildCommitment env (s\<lparr>state := putStateSyncEvent (state s) event\<rparr>)))"
  by (auto simp: AddLog_def split: sum.splits)







lemma perform_pendingSorted:
  assumes "pendingSorted s"
  shows "pendingSorted (perform env s op)"
proof (cases op)
  case (OpPostEpoch req)
  have "pendingSorted (fst (PostEpoch env s req))"
    unfolding PostEpoch_unfold
    by (cases "GetNextCommittedIndex req")
       (simp_all add: pendingSorted_def buildCommitment_pendingSorted [unfolded pendingSorted_def])
  then show ?thesis using OpPostEpoch by simp
next
  case (OpPostBlock txs)
  then show ?thesis
    using assms PostBlock_pending [of env s txs] by (auto simp: pendingSorted_def)
next
  case (OpAddLog eventLog)
  from AddLog_unfold [of env s eventLog] show ?thesis
  proof
    assume "AddLog env s eventLog = s"
    then show ?thesis using OpAddLog assms by simp
  next
    assume "\<exists>event. AddLog env s eventLog =
      fst (buildCommitment env (s\<lparr>state := putStateSyncEvent (state s) event\<rparr>))"
    then obtain event where a: "AddLog env s eventLog =
      fst (buildCommitment env (s\<lparr>state := putStateSyncEvent (state s) event\<rparr>))" by blast
    have "pendingSorted (s\<lparr>state := putStateSyncEvent (state s) event\<rparr>)"
      using assms by (simp add: pendingSorted_def)
    then show ?thesis using OpAddLog a by (simp add: buildCommitment_pendingSorted)
  qed
next
  case OpCommitment
  then show ?thesis using assms by simp
qed











section \<open>Claim C8\<close>








end
